theory Spec2Isabelle
  imports Complex_Main
begin

section \<open>Decimal arithmetic and machine integers\<close>

text \<open>
  The bot computes with \<^verbatim>\<open>decimal.Decimal\<close> of the library \<^verbatim>\<open>shopspring/decimal\<close>: an
  arbitrary-precision integer coefficient with a power-of-ten exponent. The library compares,
  adds, subtracts and multiplies by numeric value and without rounding, so a decimal is modelled
  by the rational number it denotes: \<^verbatim>\<open>Add\<close>, \<^verbatim>\<open>Sub\<close>, \<^verbatim>\<open>Mul\<close> are \<open>+\<close>, \<open>-\<close>, \<open>*\<close> on
  \<open>rat\<close>, \<^verbatim>\<open>GreaterThan\<close>, \<^verbatim>\<open>LessThan\<close>, \<^verbatim>\<open>LessThanOrEqual\<close> are \<open><\<close> and \<open>\<le>\<close>,
  \<^verbatim>\<open>decimal.Zero\<close> is \<open>0\<close>, and \<^verbatim>\<open>NewFromInt\<close> is \<open>of_int\<close>. \<^verbatim>\<open>NewFromFloat\<close> yields the
  shortest decimal that reads back as the same float, which for the literals of the source
  (\<^verbatim>\<open>1.5\<close>, \<^verbatim>\<open>0.3\<close>, \<^verbatim>\<open>0.05\<close>, ...) is the literal itself.

  Only division rounds: \<^verbatim>\<open>d.Div(d2)\<close> is \<^verbatim>\<open>d.DivRound(d2, DivisionPrecision)\<close> with
  \<^verbatim>\<open>DivisionPrecision = 16\<close>. \<^verbatim>\<open>DivRound\<close> takes the quotient truncated toward zero at
  \<open>precision\<close> decimal places (\<^verbatim>\<open>QuoRem\<close>) and moves it one unit of the last place away from
  zero when twice the remainder is at least the divisor. \<^verbatim>\<open>QuoRem\<close> panics on a zero divisor.
\<close>

type_synonym Decimal = rat

datatype error =
    Panic string
  | Err string
  | Wrap string error
  | InsufficientUSDCBalance Decimal Decimal
  | OrderFailed string

definition DivisionPrecision :: nat where
  "DivisionPrecision = 16"

definition DivRound :: "Decimal \<Rightarrow> Decimal \<Rightarrow> nat \<Rightarrow> Decimal" where
  "DivRound d d2 precision =
     (let x = d / d2 * 10 ^ precision;
          q = (if 0 \<le> x then \<lfloor>x\<rfloor> else \<lceil>x\<rceil>);
          c = 2 * \<bar>x - of_int q\<bar>
      in if c < 1 then of_int q / 10 ^ precision
         else if sgn d * sgn d2 < 0 then (of_int q - 1) / 10 ^ precision
         else (of_int q + 1) / 10 ^ precision)"

definition Div :: "Decimal \<Rightarrow> Decimal \<Rightarrow> error + Decimal" where
  "Div d d2 =
     (if d2 = 0 then Inl (Panic ''decimal division by 0'')
      else Inr (DivRound d d2 DivisionPrecision))"

text \<open>
  A step that can panic is followed by the rest of the function only when it returned.
\<close>

definition andThen :: "error + 'a \<Rightarrow> ('a \<Rightarrow> error + 'b) \<Rightarrow> error + 'b" where
  "andThen r f = (case r of Inl e \<Rightarrow> Inl e | Inr x \<Rightarrow> f x)"

text \<open>
  Go's \<^verbatim>\<open>int\<close> is a 64-bit two's complement integer on the platforms the bot is built for;
  \<^verbatim>\<open>int64(25 - value)\<close> is the difference wrapped into that range.
\<close>

definition int64 :: "int \<Rightarrow> int" where
  "int64 x = (x + 2 ^ 63) mod 2 ^ 64 - 2 ^ 63"

section \<open>Sentiment multiplier and dynamic buffer\<close>

text \<open>
  \<^verbatim>\<open>calculateMultiplier\<close> of the Fear and Greed service: a \<^verbatim>\<open>switch\<close> on the index with the
  cut points 20, 40, 60 and 80, each band interpolating linearly.
\<close>

definition calculateMultiplier :: "int \<Rightarrow> error + Decimal" where
  "calculateMultiplier val =
     (if val \<le> 20 then
        andThen (Div (of_int (int64 (25 - val))) (of_int 25))
          (\<lambda>ratio. Inr (1.5 + ratio * 0.5))
      else if val \<le> 40 then
        andThen (Div (of_int (int64 (45 - val))) (of_int 20))
          (\<lambda>ratio. Inr (1.2 + ratio * 0.3))
      else if val \<le> 60 then
        Inr 1.0
      else if val \<le> 80 then
        andThen (Div (of_int (int64 (75 - val))) (of_int 20))
          (\<lambda>ratio. Inr (0.7 + ratio * 0.3))
      else
        andThen (Div (of_int (int64 (100 - val))) (of_int 25))
          (\<lambda>ratio. Inr (0.5 + ratio * 0.2)))"

text \<open>
  \<^verbatim>\<open>calculateDynamicBuffer\<close> of the bot: the fraction of the cash balance that is held back.
\<close>

definition calculateDynamicBuffer :: "int \<Rightarrow> error + Decimal" where
  "calculateDynamicBuffer fngValue =
     (if fngValue \<le> 20 then
        Inr 0
      else if fngValue \<le> 40 then
        andThen (Div (of_int (int64 (40 - fngValue))) (of_int 20))
          (\<lambda>ratio. Inr (0.05 + ratio * 0.05))
      else if fngValue \<le> 60 then
        andThen (Div (of_int (int64 (60 - fngValue))) (of_int 20))
          (\<lambda>ratio. Inr (0.15 + ratio * 0.05))
      else if fngValue \<le> 80 then
        Inr 0.20
      else
        Inr 0.20)"

section \<open>Data model\<close>

text \<open>
  The structs of package \<^verbatim>\<open>types\<close>. Timestamps are left out: no decision depends on one.
  The asset map of the portfolio is left out as well: neither the planner nor the
  orchestrator reads it. \<open>Reason\<close> holds the two values the rationale text is formatted from,
  the multiplier and the index. \<open>Error\<close> holds the error whose message the source stores.
\<close>

record Portfolio =
  TotalValue :: Decimal
  USDCBalance :: Decimal

record FearGreedIndex =
  Value :: int
  Classification :: string
  Multiplier :: Decimal

record InvestmentDecision =
  Asset :: string
  Action :: string
  Amount :: Decimal
  Price :: Decimal
  Reason :: "Decimal \<times> int"

record BotConfig =
  BTCAllocation :: Decimal
  ETHAllocation :: Decimal
  WeeklyBaseInvestment :: Decimal
  FNGBuyThreshold :: int
  MinMultiplier :: Decimal
  MaxMultiplier :: Decimal

record ExecutionResult =
  Success :: bool
  Decisions :: "InvestmentDecision list"
  PortfolioBefore :: Portfolio
  FNGIndex :: FearGreedIndex
  TotalInvested :: Decimal
  TotalSold :: Decimal
  Error :: "error option"

section \<open>External collaborators\<close>

text \<open>
  The trading venue and the sentiment source are outside the engine; a run sees them through
  the results of its calls. An order placement is the call
  \<^verbatim>\<open>PlaceOrder(productID, side, orderType, size, price)\<close>, with the size as the decimal whose
  text is passed; the venue answers with an error message or with a response carrying a
  success flag, an order identifier and a failure reason. The answer may depend on the orders
  placed earlier in the run, so the venue is a function of that history and of the call.
\<close>

datatype PlaceOrderCall = PlaceOrderCall string string string Decimal string

datatype CreateOrderResponse =
  CreateOrderResponse (resp_Success: bool) (resp_OrderId: string) (resp_FailureReason: string)

type_synonym Venue = "PlaceOrderCall list \<Rightarrow> PlaceOrderCall \<Rightarrow> string + CreateOrderResponse"

record Services =
  GetPortfolio :: "string + Portfolio"
  FetchFNG :: "string + int \<times> string"
  getAssetPrice :: "string \<Rightarrow> string + Decimal"
  PlaceOrder :: Venue

text \<open>
  \<^verbatim>\<open>GetFearGreedIndex\<close>: the fetched and parsed first entry of the response, or the error of
  the fetch, is the argument; the multiplier is computed once, here, and stored in the index.
\<close>

definition GetFearGreedIndex :: "string + int \<times> string \<Rightarrow> error + FearGreedIndex" where
  "GetFearGreedIndex fetched =
     (case fetched of
        Inl msg \<Rightarrow> Inl (Err msg)
      | Inr (val, cls) \<Rightarrow>
          andThen (calculateMultiplier val)
            (\<lambda>multiplier. Inr \<lparr>Value = val, Classification = cls, Multiplier = multiplier\<rparr>))"

section \<open>Allocation planner\<close>

text \<open>
  The first half of \<^verbatim>\<open>calculateBuyDecisions\<close>: the base investment times the multiplier
  stored in the index, capped by the cash balance less the buffer.
\<close>

definition investmentAmount :: "BotConfig \<Rightarrow> Portfolio \<Rightarrow> FearGreedIndex \<Rightarrow> Decimal \<Rightarrow> Decimal" where
  "investmentAmount config portfolio fngIndex dynamicBuffer =
     (let availableUSDC = USDCBalance portfolio;
          baseInvestment = WeeklyBaseInvestment config;
          amount = baseInvestment * Multiplier fngIndex;
          maxInvestment = availableUSDC * (1.0 - dynamicBuffer)
      in if amount > maxInvestment then maxInvestment else amount)"

definition buyDecision :: "string \<Rightarrow> Decimal \<Rightarrow> Decimal \<Rightarrow> FearGreedIndex \<Rightarrow> InvestmentDecision" where
  "buyDecision asset amount price fngIndex =
     \<lparr>Asset = asset, Action = ''buy'', Amount = amount, Price = price,
      Reason = (Multiplier fngIndex, Value fngIndex)\<rparr>"

definition calculateBuyDecisions ::
  "BotConfig \<Rightarrow> Portfolio \<Rightarrow> (string \<Rightarrow> string + Decimal) \<Rightarrow> FearGreedIndex
     \<Rightarrow> error + InvestmentDecision list" where
  "calculateBuyDecisions config portfolio assetPrice fngIndex =
     andThen (calculateDynamicBuffer (Value fngIndex)) (\<lambda>dynamicBuffer.
       let amount = investmentAmount config portfolio fngIndex dynamicBuffer in
       if amount \<le> 0 then Inr []
       else
         andThen (Div (amount * BTCAllocation config) (of_int 100)) (\<lambda>btcInvestment.
         andThen (Div (amount * ETHAllocation config) (of_int 100)) (\<lambda>ethInvestment.
           let decisions = [];
               decisions =
                 (case assetPrice ''BTC'' of
                    Inr btcPrice \<Rightarrow>
                      if btcInvestment > 0
                      then decisions @ [buyDecision ''BTC'' btcInvestment btcPrice fngIndex]
                      else decisions
                  | Inl err \<Rightarrow> decisions);
               decisions =
                 (case assetPrice ''ETH'' of
                    Inr ethPrice \<Rightarrow>
                      if ethInvestment > 0
                      then decisions @ [buyDecision ''ETH'' ethInvestment ethPrice fngIndex]
                      else decisions
                  | Inl err \<Rightarrow> decisions)
           in Inr decisions)))"

section \<open>Execution orchestrator\<close>

text \<open>
  \<^verbatim>\<open>executeBuyOrder\<close> returns an error or nothing; the model also returns the history of
  order placements, extended by the call it made. The balance it checks is the one of the
  portfolio snapshot taken at the start of the run.
\<close>

definition executeBuyOrder ::
  "Venue \<Rightarrow> Portfolio \<Rightarrow> InvestmentDecision \<Rightarrow> PlaceOrderCall list
     \<Rightarrow> (error + unit) \<times> PlaceOrderCall list" where
  "executeBuyOrder venue portfolio decision calls =
     (let productID = Asset decision @ ''-USDC'' in
      if USDCBalance portfolio < Amount decision then
        (Inl (InsufficientUSDCBalance (USDCBalance portfolio) (Amount decision)), calls)
      else
        (case Div (Amount decision) (Price decision) of
           Inl e \<Rightarrow> (Inl e, calls)
         | Inr sz \<Rightarrow>
             (let call = PlaceOrderCall productID ''BUY'' ''market'' sz '''' in
              case venue calls call of
                Inl msg \<Rightarrow> (Inl (Wrap ''failed to place order'' (Err msg)), calls @ [call])
              | Inr orderResp \<Rightarrow>
                  if resp_Success orderResp then (Inr (), calls @ [call])
                  else (Inl (OrderFailed (resp_FailureReason orderResp)), calls @ [call]))))"

text \<open>
  The loop of \<^verbatim>\<open>Execute\<close> over the decisions, with the variables it updates. A panic leaves
  the loop and the run; an error of one order is recorded and the loop goes on.
\<close>

record LoopState =
  resultSuccess :: bool
  resultError :: "error option"
  totalInvested :: Decimal
  successfulOrders :: nat
  failedOrders :: nat
  placed :: "PlaceOrderCall list"

fun executeDecisions ::
  "Venue \<Rightarrow> Portfolio \<Rightarrow> InvestmentDecision list \<Rightarrow> LoopState \<Rightarrow> error + LoopState" where
  "executeDecisions venue portfolio [] st = Inr st"
| "executeDecisions venue portfolio (decision # rest) st =
     (if Action decision = ''buy'' then
        (case executeBuyOrder venue portfolio decision (placed st) of
           (Inl (Panic msg), calls) \<Rightarrow> Inl (Panic msg)
         | (Inl err, calls) \<Rightarrow>
             executeDecisions venue portfolio rest
               (st\<lparr>resultSuccess := False, resultError := Some err,
                   failedOrders := failedOrders st + 1, placed := calls\<rparr>)
         | (Inr u, calls) \<Rightarrow>
             executeDecisions venue portfolio rest
               (st\<lparr>totalInvested := totalInvested st + Amount decision,
                   successfulOrders := successfulOrders st + 1, placed := calls\<rparr>))
      else executeDecisions venue portfolio rest st)"

definition initialLoopState :: LoopState where
  "initialLoopState =
     \<lparr>resultSuccess = True, resultError = None, totalInvested = 0,
      successfulOrders = 0, failedOrders = 0, placed = []\<rparr>"

text \<open>
  \<^verbatim>\<open>Execute\<close>: snapshot, sentiment, plan, then the loop. The planner's error result is
  always \<^verbatim>\<open>nil\<close> in the source, so only a panic could end the run there. The result comes
  with the order placements of the run.
\<close>

definition Execute :: "BotConfig \<Rightarrow> Services \<Rightarrow> error + ExecutionResult \<times> PlaceOrderCall list" where
  "Execute config services =
     (case GetPortfolio services of
        Inl msg \<Rightarrow> Inl (Wrap ''failed to get portfolio'' (Err msg))
      | Inr portfolio \<Rightarrow>
          (case GetFearGreedIndex (FetchFNG services) of
             Inl (Panic msg) \<Rightarrow> Inl (Panic msg)
           | Inl err \<Rightarrow> Inl (Wrap ''failed to get FNG index'' err)
           | Inr fngIndex \<Rightarrow>
               andThen (calculateBuyDecisions config portfolio (getAssetPrice services) fngIndex)
                 (\<lambda>decisions.
                    andThen (executeDecisions (PlaceOrder services) portfolio decisions
                               initialLoopState)
                      (\<lambda>st. Inr (\<lparr>Success = resultSuccess st, Decisions = decisions,
                                    PortfolioBefore = portfolio, FNGIndex = fngIndex,
                                    TotalInvested = totalInvested st, TotalSold = 0,
                                    Error = resultError st\<rparr>, placed st)))))"

text \<open>
  The outcome of every attempted decision, in order: what \<^verbatim>\<open>executeBuyOrder\<close> returned for
  it, given the placements made before it. This is the sequence of execution outcomes the
  aggregate of a run is compared with.
\<close>

fun outcomes ::
  "Venue \<Rightarrow> Portfolio \<Rightarrow> InvestmentDecision list \<Rightarrow> PlaceOrderCall list
     \<Rightarrow> (InvestmentDecision \<times> (error + unit)) list" where
  "outcomes venue portfolio [] calls = []"
| "outcomes venue portfolio (decision # rest) calls =
     (if Action decision = ''buy'' then
        (decision, fst (executeBuyOrder venue portfolio decision calls))
          # outcomes venue portfolio rest (snd (executeBuyOrder venue portfolio decision calls))
      else outcomes venue portfolio rest calls)"

definition succeeded :: "InvestmentDecision \<times> (error + unit) \<Rightarrow> bool" where
  "succeeded outcome = (case snd outcome of Inr u \<Rightarrow> True | Inl e \<Rightarrow> False)"

text \<open>The order placement that \<^verbatim>\<open>executeBuyOrder\<close> makes for a decision it can afford.\<close>

definition marketBuy :: "InvestmentDecision \<Rightarrow> PlaceOrderCall" where
  "marketBuy decision =
     PlaceOrderCall (Asset decision @ ''-USDC'') ''BUY'' ''market''
       (DivRound (Amount decision) (Price decision) DivisionPrecision) ''''"

section \<open>The venue client\<close>

text \<open>
  \<^verbatim>\<open>PlaceOrder\<close> of the Coinbase service builds the order configuration from the order type
  and hands the request to the orders service of the vendor's SDK: a market order carries the
  size as \<^verbatim>\<open>QuoteSize\<close>, the amount of quote currency to spend, and leaves \<^verbatim>\<open>BaseSize\<close>
  unset; a limit order carries the size as \<^verbatim>\<open>BaseSize\<close>. The sizes are the decimals whose
  text is passed, and an unset field is \<open>None\<close>. The orders service answers as the venue does,
  given the requests it received before.
\<close>

datatype MarketIoc = MarketIoc (QuoteSize: "Decimal option") (BaseSize: "Decimal option")

datatype LimitGtc = LimitGtc (LimitBaseSize: Decimal) (LimitPrice: string)

datatype OrderConfiguration = MarketMarketIoc MarketIoc | LimitLimitGtc LimitGtc

datatype CreateOrderRequest =
  CreateOrderRequest (ProductId: string) (Side: string) (Configuration: OrderConfiguration)

type_synonym OrdersService =
  "CreateOrderRequest list \<Rightarrow> CreateOrderRequest \<Rightarrow> string + CreateOrderResponse"

fun createOrderRequest :: "PlaceOrderCall \<Rightarrow> string + CreateOrderRequest" where
  "createOrderRequest (PlaceOrderCall productID side orderType sz price) =
     (if orderType = ''market'' then
        Inr (CreateOrderRequest productID side (MarketMarketIoc (MarketIoc (Some sz) None)))
      else if orderType = ''limit'' \<and> price \<noteq> '''' then
        Inr (CreateOrderRequest productID side (LimitLimitGtc (LimitGtc sz price)))
      else Inl (''unsupported order type: '' @ orderType))"

fun submitted :: "PlaceOrderCall list \<Rightarrow> CreateOrderRequest list" where
  "submitted [] = []"
| "submitted (call # calls) =
     (case createOrderRequest call of
        Inr request \<Rightarrow> request # submitted calls
      | Inl msg \<Rightarrow> submitted calls)"

definition CoinbaseService_PlaceOrder :: "OrdersService \<Rightarrow> Venue" where
  "CoinbaseService_PlaceOrder ordersService history call =
     (case createOrderRequest call of
        Inl msg \<Rightarrow> Inl msg
      | Inr request \<Rightarrow>
          (case ordersService (submitted history) request of
             Inl msg \<Rightarrow> Inl (''failed to place order: '' @ msg)
           | Inr resp \<Rightarrow> Inr resp))"

section \<open>The specification's tables\<close>

text \<open>
  The multiplier and the buffer fraction as the specification tabulates them, over exact
  rational arithmetic: five bands for the multiplier, four for the buffer. The source
  functions above are compared with these.
\<close>

definition multiplier_spec :: "int \<Rightarrow> rat" where
  "multiplier_spec v =
     (if v \<le> 20 then 1.5 + (of_int (25 - v) / 25) * 0.5
      else if v \<le> 40 then 1.2 + (of_int (45 - v) / 20) * 0.3
      else if v \<le> 60 then 1.0
      else if v \<le> 80 then 0.7 + (of_int (75 - v) / 20) * 0.3
      else 0.5 + (of_int (100 - v) / 25) * 0.2)"

definition bufferFraction_spec :: "int \<Rightarrow> rat" where
  "bufferFraction_spec v =
     (if v \<le> 20 then 0
      else if v \<le> 40 then 0.05 + (of_int (40 - v) / 20) * 0.05
      else if v \<le> 60 then 0.15 + (of_int (60 - v) / 20) * 0.05
      else 0.20)"

text \<open>The same tables in thousandths and in ten-thousandths, as integers.\<close>

definition multiplier_millis :: "int \<Rightarrow> int" where
  "multiplier_millis v =
     (if v \<le> 20 then 20 * (100 - v)
      else if v \<le> 40 then 5 * (375 - 3 * v)
      else if v \<le> 60 then 1000
      else if v \<le> 80 then 5 * (365 - 3 * v)
      else 4 * (325 - 2 * v))"

definition buffer_ten_thousandths :: "int \<Rightarrow> int" where
  "buffer_ten_thousandths v =
     (if v \<le> 20 then 0
      else if v \<le> 40 then 25 * (60 - v)
      else if v \<le> 60 then 25 * (120 - v)
      else 2000)"

section \<open>Example runs\<close>

text \<open>
  The configuration that \<^verbatim>\<open>loadConfigFromEnv\<close> builds when no variable is set, and small
  environments for concrete runs: a portfolio holding only cash, an index with a given value
  and multiplier, price lookups that succeed or fail, and venues that accept every order or
  reject the orders for ETH.
\<close>

definition defaultConfig :: BotConfig where
  "defaultConfig =
     \<lparr>BTCAllocation = 80.0, ETHAllocation = 20.0, WeeklyBaseInvestment = 100.0,
      FNGBuyThreshold = 25, MinMultiplier = 0.5, MaxMultiplier = 2.0\<rparr>"

definition cashOnly :: "Decimal \<Rightarrow> Portfolio" where
  "cashOnly balance = \<lparr>TotalValue = balance, USDCBalance = balance\<rparr>"

definition indexAt :: "int \<Rightarrow> Decimal \<Rightarrow> FearGreedIndex" where
  "indexAt val multiplier = \<lparr>Value = val, Classification = [], Multiplier = multiplier\<rparr>"

definition bothPrices :: "string \<Rightarrow> string + Decimal" where
  "bothPrices symbol = (if symbol = ''BTC'' then Inr 50000 else Inr 2500)"

definition noPrices :: "string \<Rightarrow> string + Decimal" where
  "noPrices symbol = Inl ''failed to get product''"

definition venueAccepts :: Venue where
  "venueAccepts history call = Inr (CreateOrderResponse True ''order-1'' [])"

definition venueRejectsETH :: Venue where
  "venueRejectsETH history call =
     (case call of
        PlaceOrderCall productID side orderType sz price \<Rightarrow>
          if productID = ''ETH-USDC''
          then Inr (CreateOrderResponse False [] ''INSUFFICIENT_FUND'')
          else Inr (CreateOrderResponse True ''order-1'' []))"

definition ordersServiceAccepts :: OrdersService where
  "ordersServiceAccepts history request = Inr (CreateOrderResponse True ''order-1'' [])"

definition exampleServices ::
  "Decimal \<Rightarrow> int \<Rightarrow> (string \<Rightarrow> string + Decimal) \<Rightarrow> Venue \<Rightarrow> Services" where
  "exampleServices balance val prices venue =
     \<lparr>GetPortfolio = Inr (cashOnly balance), FetchFNG = Inr (val, []),
      getAssetPrice = prices, PlaceOrder = venue\<rparr>"

section \<open>Division: exact quotients and the rounding error\<close>

lemma DivRound_exact:
  assumes "d / d2 * 10 ^ p = of_int k"
  shows "DivRound d d2 p = of_int k / 10 ^ p"
  using assms by (simp add: DivRound_def Let_def)

lemma sgn_mult_neg_iff:
  fixes d d2 :: rat
  assumes "d2 \<noteq> 0"
  shows "sgn d * sgn d2 < 0 \<longleftrightarrow> d / d2 * 10 ^ p < 0"
proof -
  have "(0::rat) < 10 ^ p" by simp
  then have "d / d2 * 10 ^ p < 0 \<longleftrightarrow> d / d2 < 0"
    by (metis mult_less_cancel_right_pos mult_zero_left)
  also have "\<dots> \<longleftrightarrow> sgn d * sgn d2 < 0"
    using assms by (auto simp: divide_less_0_iff mult_less_0_iff sgn_if)
  finally show ?thesis by simp
qed

lemma round_half_away:
  fixes x :: rat
  defines "q \<equiv> (if 0 \<le> x then \<lfloor>x\<rfloor> else \<lceil>x\<rceil>)"
  defines "r \<equiv> (if 2 * \<bar>x - of_int q\<bar> < 1 then of_int q
                  else if x < 0 then of_int q - 1 else of_int q + 1)"
  shows "\<bar>r - x\<bar> \<le> 1 / 2"
  unfolding r_def q_def by (auto simp: abs_if; linarith)

lemma DivRound_error:
  assumes "d2 \<noteq> 0"
  shows "\<bar>DivRound d d2 p - d / d2\<bar> \<le> 1 / (2 * 10 ^ p)"
proof -
  define x where "x = d / d2 * 10 ^ p"
  define q where "q = (if 0 \<le> x then \<lfloor>x\<rfloor> else \<lceil>x\<rceil>)"
  define r :: rat where "r = (if 2 * \<bar>x - of_int q\<bar> < 1 then of_int q
                  else if x < 0 then of_int q - 1 else of_int q + 1)"
  have r: "\<bar>r - x\<bar> \<le> 1 / 2"
    unfolding r_def q_def by (rule round_half_away)
  have D: "DivRound d d2 p = r / 10 ^ p"
    using sgn_mult_neg_iff [OF assms, of d p]
    by (simp add: DivRound_def Let_def r_def q_def x_def)
  have "d / d2 = x / 10 ^ p" by (simp add: x_def)
  with D have "\<bar>DivRound d d2 p - d / d2\<bar> = \<bar>r - x\<bar> / 10 ^ p"
    by (simp add: diff_divide_distrib [symmetric])
  also have "\<dots> \<le> (1 / 2) / 10 ^ p"
    by (rule divide_right_mono [OF r]) simp
  also have "\<dots> = 1 / (2 * 10 ^ p)" by simp
  finally show ?thesis .
qed

lemma int64_id: "- (2 ^ 63) \<le> x \<Longrightarrow> x < 2 ^ 63 \<Longrightarrow> int64 x = x"
  by (simp add: int64_def)

lemma Div_of_int_25: "Div (of_int n) (of_int 25) = Inr (of_int n / 25)"
proof -
  have "(of_int n :: rat) / 25 * 10 ^ 16 = of_int (n * 400000000000000)" by simp
  from DivRound_exact [OF this] show ?thesis
    by (simp add: Div_def DivisionPrecision_def)
qed

lemma Div_of_int_20: "Div (of_int n) (of_int 20) = Inr (of_int n / 20)"
proof -
  have "(of_int n :: rat) / 20 * 10 ^ 16 = of_int (n * 500000000000000)" by simp
  from DivRound_exact [OF this] show ?thesis
    by (simp add: Div_def DivisionPrecision_def)
qed

section \<open>The calculators against the tables\<close>

text \<open>
  The interpolation ratios are multiples of \<open>1/25\<close> and \<open>1/20\<close>, so the division does not
  round, and the subtraction does not wrap unless the index is within 25 of the least
  64-bit integer.
\<close>

lemma calculateMultiplier_exact:
  assumes "- (2 ^ 63) + 25 < v" and "v < 2 ^ 63"
  shows "calculateMultiplier v = Inr (multiplier_spec v)"
proof -
  have a: "int64 (25 - v) = 25 - v" if "v \<le> 20" using assms that by (intro int64_id) simp_all
  have b: "int64 (45 - v) = 45 - v" if "20 < v" "v \<le> 40" using that by (intro int64_id) simp_all
  have c: "int64 (75 - v) = 75 - v" if "60 < v" "v \<le> 80" using that by (intro int64_id) simp_all
  have d: "int64 (100 - v) = 100 - v" if "80 < v" using assms that by (intro int64_id) simp_all
  show ?thesis
    using a b c d Div_of_int_25 [of "25 - v"] Div_of_int_25 [of "100 - v"]
      Div_of_int_20 [of "45 - v"] Div_of_int_20 [of "75 - v"]
    by (simp add: calculateMultiplier_def multiplier_spec_def andThen_def)
qed

lemma calculateDynamicBuffer_exact:
  "calculateDynamicBuffer v = Inr (bufferFraction_spec v)"
proof -
  have b: "int64 (40 - v) = 40 - v" if "20 < v" "v \<le> 40" using that by (intro int64_id) simp_all
  have c: "int64 (60 - v) = 60 - v" if "40 < v" "v \<le> 60" using that by (intro int64_id) simp_all
  show ?thesis
    using b c Div_of_int_20 [of "40 - v"] Div_of_int_20 [of "60 - v"]
    by (simp add: calculateDynamicBuffer_def bufferFraction_spec_def andThen_def)
qed

lemma calculateMultiplier_returns: "\<exists>m. calculateMultiplier v = Inr m"
  by (simp add: calculateMultiplier_def andThen_def Div_def)

lemma multiplier_spec_millis: "multiplier_spec v = of_int (multiplier_millis v) / 1000"
  by (simp add: multiplier_spec_def multiplier_millis_def)

lemma bufferFraction_spec_scaled:
  "bufferFraction_spec v = of_int (buffer_ten_thousandths v) / 10000"
  by (simp add: bufferFraction_spec_def buffer_ten_thousandths_def)

lemma bufferFraction_spec_bounds: "0 \<le> bufferFraction_spec v \<and> bufferFraction_spec v \<le> 0.20"
proof -
  have "0 \<le> buffer_ten_thousandths v \<and> buffer_ten_thousandths v \<le> 2000"
    by (simp add: buffer_ten_thousandths_def)
  then show ?thesis
    by (simp add: bufferFraction_spec_scaled)
qed

text \<open>
  C1. For every index \<open>v\<close> from 0 to 100 the multiplier calculator returns, without failing,
  the value of the five-band table: bands cut at \<open>v \<le> 20\<close>, \<open>v \<le> 40\<close>, \<open>v \<le> 60\<close>,
  \<open>v \<le> 80\<close>, with \<open>1.5 + ((25 - v)/25) \<times> 0.5\<close>, \<open>1.2 + ((45 - v)/20) \<times> 0.3\<close>, \<open>1.0\<close>,
  \<open>0.7 + ((75 - v)/20) \<times> 0.3\<close> and \<open>0.5 + ((100 - v)/25) \<times> 0.2\<close>.
\<close>

theorem calculateMultiplier_five_bands:
  assumes "0 \<le> v" and "v \<le> 100"
  shows "calculateMultiplier v = Inr (multiplier_spec v)"
  using assms by (intro calculateMultiplier_exact) simp_all

theorem calculateMultiplier_five_bands_witness:
  "(0::int) \<le> 30 \<and> (30::int) \<le> 100 \<and> calculateMultiplier 30 = Inr 1.425"
  using calculateMultiplier_five_bands [of 30] by (simp add: multiplier_spec_def)

text \<open>
  C2, as stated: the multiplier at 21 is about 1.496. The calculator returns 1.56 there,
  more than 0.06 away.
\<close>

theorem multiplier_21_counterexample:
  "calculateMultiplier 21 = Inr 1.56 \<and> (0.06::rat) < \<bar>1.56 - 1.496\<bar>"
  using calculateMultiplier_exact [of 21] by (simp add: multiplier_spec_def)

text \<open>
  C2, amended. The multiplier is 2.0 at 0, 1.6 at 20, 1.56 at 21, 1.0 at 50 and 0.5 at 100;
  the jump at the cut between 20 and 21 is from 1.6 down to 1.56.
\<close>

theorem multiplier_reference_values:
  "calculateMultiplier 0 = Inr 2.0 \<and> calculateMultiplier 20 = Inr 1.6
   \<and> calculateMultiplier 21 = Inr 1.56 \<and> calculateMultiplier 50 = Inr 1.0
   \<and> calculateMultiplier 100 = Inr 0.5"
  using calculateMultiplier_exact [of 0] calculateMultiplier_exact [of 20]
    calculateMultiplier_exact [of 21] calculateMultiplier_exact [of 50]
    calculateMultiplier_exact [of 100]
  by (simp add: multiplier_spec_def)

text \<open>
  C3, as stated: outside 0 to 100 both calculators fail. At 101 the multiplier calculator
  returns 0.492 and the buffer calculator returns 0.20.
\<close>

theorem out_of_range_counterexample:
  "calculateMultiplier 101 = Inr 0.492 \<and> calculateDynamicBuffer 101 = Inr 0.20"
  using calculateMultiplier_exact [of 101] calculateDynamicBuffer_exact [of 101]
  by (simp add: multiplier_spec_def bufferFraction_spec_def)

text \<open>
  C3, amended. Neither calculator checks the range and neither fails on any index. Below 0
  the multiplier calculator extends the formula of the first band and above 100 that of the
  last band (as long as the subtraction stays inside the 64-bit integers); the buffer
  calculator returns 0 below 0 and 0.20 above 100.
\<close>

theorem out_of_range_extrapolates:
  "(\<exists>m. calculateMultiplier v = Inr m) \<and> (\<exists>b. calculateDynamicBuffer v = Inr b)
   \<and> (- (2 ^ 63) + 25 < v \<and> v < 0 \<longrightarrow>
        calculateMultiplier v = Inr (1.5 + (of_int (25 - v) / 25) * 0.5))
   \<and> (100 < v \<and> v < 2 ^ 63 \<longrightarrow>
        calculateMultiplier v = Inr (0.5 + (of_int (100 - v) / 25) * 0.2))
   \<and> (v < 0 \<longrightarrow> calculateDynamicBuffer v = Inr 0)
   \<and> (100 < v \<longrightarrow> calculateDynamicBuffer v = Inr 0.20)"
proof -
  have "calculateMultiplier v = Inr (1.5 + (of_int (25 - v) / 25) * 0.5)"
    if "- (2 ^ 63) + 25 < v" "v < 0"
    using that calculateMultiplier_exact [of v] by (simp add: multiplier_spec_def)
  moreover have "calculateMultiplier v = Inr (0.5 + (of_int (100 - v) / 25) * 0.2)"
    if "100 < v" "v < 2 ^ 63"
    using that calculateMultiplier_exact [of v] by (simp add: multiplier_spec_def)
  moreover have "calculateDynamicBuffer v = Inr 0" if "v < 0"
    using that by (simp add: calculateDynamicBuffer_exact bufferFraction_spec_def)
  moreover have "calculateDynamicBuffer v = Inr 0.20" if "100 < v"
    using that by (simp add: calculateDynamicBuffer_exact bufferFraction_spec_def)
  ultimately show ?thesis
    using calculateMultiplier_returns [of v] by (simp add: calculateDynamicBuffer_exact)
qed

theorem out_of_range_extrapolates_witness:
  "calculateMultiplier (- 5) = Inr 2.1 \<and> calculateDynamicBuffer (- 5) = Inr 0
   \<and> calculateMultiplier 150 = Inr 0.1 \<and> calculateDynamicBuffer 150 = Inr 0.20"
  using out_of_range_extrapolates [of "- 5"] out_of_range_extrapolates [of 150] by simp

text \<open>
  What holds of the monotonicity of the multiplier: it is positive from 0 to 100, and it does
  not increase up to 80, nor from 81 on.
\<close>

lemma multiplier_spec_pos: "0 \<le> v \<Longrightarrow> v \<le> 100 \<Longrightarrow> 0 < multiplier_spec v"
  by (simp add: multiplier_spec_millis multiplier_millis_def)

lemma multiplier_spec_antimono_low:
  assumes "v1 \<le> v2" "v2 \<le> 80"
  shows "multiplier_spec v2 \<le> multiplier_spec v1"
proof -
  have "multiplier_millis v2 \<le> multiplier_millis v1"
    using assms by (simp add: multiplier_millis_def)
  then show ?thesis
    by (simp add: multiplier_spec_millis)
qed

lemma multiplier_spec_antimono_high:
  assumes "80 < v1" "v1 \<le> v2"
  shows "multiplier_spec v2 \<le> multiplier_spec v1"
proof -
  have "multiplier_millis v2 \<le> multiplier_millis v1"
    using assms by (simp add: multiplier_millis_def)
  then show ?thesis
    by (simp add: multiplier_spec_millis)
qed

text \<open>
  C4. The multiplier is positive and never increases with the index, from 0 to 100. The
  calculator evaluated at 80 and at 81: it returns 0.625 and then 0.652, an increase across
  the cut at 80.
\<close>

theorem multiplier_rises_from_80_to_81:
  "calculateMultiplier 80 = Inr 0.625 \<and> calculateMultiplier 81 = Inr 0.652
   \<and> (0.625::rat) < 0.652"
  using calculateMultiplier_exact [of 80] calculateMultiplier_exact [of 81]
  by (simp add: multiplier_spec_def)

text \<open>
  C5. For every index \<open>v\<close> from 0 to 100 the buffer calculator returns the value of the
  four-band table (0 up to 20, \<open>0.05 + ((40 - v)/20) \<times> 0.05\<close> up to 40,
  \<open>0.15 + ((60 - v)/20) \<times> 0.05\<close> up to 60, 0.20 above), which lies between 0 and 0.20;
  it is 0 at 0 and 0.20 at 61 and at 100.
\<close>

theorem calculateDynamicBuffer_bands:
  assumes "0 \<le> v" and "v \<le> 100"
  shows "calculateDynamicBuffer v = Inr (bufferFraction_spec v)
         \<and> 0 \<le> bufferFraction_spec v \<and> bufferFraction_spec v \<le> 0.20
         \<and> calculateDynamicBuffer 0 = Inr 0
         \<and> calculateDynamicBuffer 61 = Inr 0.20 \<and> calculateDynamicBuffer 100 = Inr 0.20"
  using bufferFraction_spec_bounds [of v]
  by (simp add: calculateDynamicBuffer_exact) (simp add: bufferFraction_spec_def)

theorem calculateDynamicBuffer_bands_witness:
  "(0::int) \<le> 30 \<and> (30::int) \<le> 100 \<and> calculateDynamicBuffer 30 = Inr 0.075
   \<and> (0::rat) \<le> 0.075 \<and> (0.075::rat) \<le> 0.20"
  using calculateDynamicBuffer_bands [of 30] by (simp add: bufferFraction_spec_def)

section \<open>The planner\<close>

lemma Div_by_100: "Div x 100 = Inr (DivRound x 100 DivisionPrecision)"
  by (simp add: Div_def)

text \<open>
  The planner never fails: the buffer calculator returns and the divisor is 100. Its result
  is the BTC decision, if any, followed by the ETH decision, if any.
\<close>

lemma calculateBuyDecisions_plan:
  "calculateBuyDecisions config portfolio assetPrice fngIndex =
     Inr (let amount = investmentAmount config portfolio fngIndex
                         (bufferFraction_spec (Value fngIndex));
              btcInvestment = DivRound (amount * BTCAllocation config) 100 DivisionPrecision;
              ethInvestment = DivRound (amount * ETHAllocation config) 100 DivisionPrecision
          in if amount \<le> 0 then []
             else (case assetPrice ''BTC'' of
                     Inr btcPrice \<Rightarrow>
                       if 0 < btcInvestment
                       then [buyDecision ''BTC'' btcInvestment btcPrice fngIndex] else []
                   | Inl err \<Rightarrow> [])
                @ (case assetPrice ''ETH'' of
                     Inr ethPrice \<Rightarrow>
                       if 0 < ethInvestment
                       then [buyDecision ''ETH'' ethInvestment ethPrice fngIndex] else []
                   | Inl err \<Rightarrow> []))"
  by (simp add: calculateBuyDecisions_def calculateDynamicBuffer_exact andThen_def Div_by_100
      Let_def split: sum.splits)

lemma investmentAmount_min:
  "investmentAmount config portfolio fngIndex buffer =
     min (WeeklyBaseInvestment config * Multiplier fngIndex) (USDCBalance portfolio * (1 - buffer))"
  by (simp add: investmentAmount_def Let_def min_def)

lemma calculateBuyDecisions_nothing_investable:
  assumes "investmentAmount config portfolio fngIndex (bufferFraction_spec (Value fngIndex)) \<le> 0"
  shows "calculateBuyDecisions config portfolio assetPrice fngIndex = Inr []"
  using assms by (simp add: calculateBuyDecisions_plan Let_def)

lemma investmentAmount_no_cash:
  assumes "USDCBalance portfolio = 0"
  shows "investmentAmount config portfolio fngIndex buffer \<le> 0"
  using assms by (simp add: investmentAmount_min)

lemma calculateBuyDecisions_no_cash:
  assumes "USDCBalance portfolio = 0"
  shows "calculateBuyDecisions config portfolio assetPrice fngIndex = Inr []"
  using assms
  by (intro calculateBuyDecisions_nothing_investable investmentAmount_no_cash)

lemma calculateBuyDecisions_no_prices:
  assumes "isl (assetPrice ''BTC'')" and "isl (assetPrice ''ETH'')"
  shows "calculateBuyDecisions config portfolio assetPrice fngIndex = Inr []"
  using assms by (auto simp: calculateBuyDecisions_plan Let_def isl_def)

lemma calculateBuyDecisions_Action:
  assumes "calculateBuyDecisions config portfolio assetPrice fngIndex = Inr decisions"
  shows "\<forall>d \<in> set decisions. Action d = ''buy''"
  using assms
  by (auto simp: calculateBuyDecisions_plan Let_def buyDecision_def split: sum.splits if_splits)

lemma GetFearGreedIndex_indexAt:
  assumes "- (2 ^ 63) + 25 < v" and "v < 2 ^ 63"
  shows "GetFearGreedIndex (Inr (v, [])) = Inr (indexAt v (multiplier_spec v))"
  using assms by (simp add: GetFearGreedIndex_def calculateMultiplier_exact andThen_def indexAt_def)

lemma example_index: "GetFearGreedIndex (Inr (50, [])) = Inr (indexAt 50 1)"
  using GetFearGreedIndex_indexAt [of 50] by (simp add: multiplier_spec_def)

lemma example_plan:
  "calculateBuyDecisions defaultConfig (cashOnly 1000) bothPrices (indexAt 50 1)
     = Inr [buyDecision ''BTC'' 80 50000 (indexAt 50 1),
            buyDecision ''ETH'' 20 2500 (indexAt 50 1)]"
  by code_simp

text \<open>
  C6. With the index as the sentiment service builds it, the amount the planner invests is
  the smaller of base investment times multiplier and cash balance times one minus the buffer
  fraction: the plan is the split of exactly that amount between the assets. When it is not
  positive, and so whenever the cash balance is 0, the planner returns the empty list of
  decisions and no error.
\<close>

theorem planner_investable:
  assumes "GetFearGreedIndex (Inr (v, cls)) = Inr fngIndex"
      and "calculateMultiplier v = Inr m"
      and "calculateDynamicBuffer v = Inr b"
      and "investable = min (WeeklyBaseInvestment config * m) (USDCBalance portfolio * (1 - b))"
  shows "investmentAmount config portfolio fngIndex b = investable
         \<and> calculateBuyDecisions config portfolio assetPrice fngIndex =
             Inr (if investable \<le> 0 then []
                  else (case assetPrice ''BTC'' of
                          Inr price \<Rightarrow>
                            if 0 < DivRound (investable * BTCAllocation config) 100 DivisionPrecision
                            then [buyDecision ''BTC''
                                    (DivRound (investable * BTCAllocation config) 100
                                       DivisionPrecision) price fngIndex]
                            else []
                        | Inl err \<Rightarrow> [])
                     @ (case assetPrice ''ETH'' of
                          Inr price \<Rightarrow>
                            if 0 < DivRound (investable * ETHAllocation config) 100 DivisionPrecision
                            then [buyDecision ''ETH''
                                    (DivRound (investable * ETHAllocation config) 100
                                       DivisionPrecision) price fngIndex]
                            else []
                        | Inl err \<Rightarrow> []))
         \<and> (investable \<le> 0 \<longrightarrow>
              calculateBuyDecisions config portfolio assetPrice fngIndex = Inr [])
         \<and> (USDCBalance portfolio = 0 \<longrightarrow>
              calculateBuyDecisions config portfolio assetPrice fngIndex = Inr [])"
proof -
  from assms(1,2) have fng: "Value fngIndex = v" "Multiplier fngIndex = m"
    by (auto simp: GetFearGreedIndex_def andThen_def)
  from assms(3) have b: "bufferFraction_spec (Value fngIndex) = b"
    by (simp add: calculateDynamicBuffer_exact fng)
  have i: "investmentAmount config portfolio fngIndex b = investable"
    by (simp add: investmentAmount_min fng assms(4))
  have plan: "calculateBuyDecisions config portfolio assetPrice fngIndex =
             Inr (if investable \<le> 0 then []
                  else (case assetPrice ''BTC'' of
                          Inr price \<Rightarrow>
                            if 0 < DivRound (investable * BTCAllocation config) 100 DivisionPrecision
                            then [buyDecision ''BTC''
                                    (DivRound (investable * BTCAllocation config) 100
                                       DivisionPrecision) price fngIndex]
                            else []
                        | Inl err \<Rightarrow> [])
                     @ (case assetPrice ''ETH'' of
                          Inr price \<Rightarrow>
                            if 0 < DivRound (investable * ETHAllocation config) 100 DivisionPrecision
                            then [buyDecision ''ETH''
                                    (DivRound (investable * ETHAllocation config) 100
                                       DivisionPrecision) price fngIndex]
                            else []
                        | Inl err \<Rightarrow> []))"
    unfolding calculateBuyDecisions_plan b i by (simp add: Let_def)
  have zero: "investable \<le> 0" if "USDCBalance portfolio = 0"
    using investmentAmount_no_cash [OF that, of config fngIndex b] by (simp add: i)
  from i plan zero show ?thesis by simp
qed

theorem planner_investable_witness:
  "calculateBuyDecisions defaultConfig (cashOnly 50) bothPrices (indexAt 50 1)
     = Inr [buyDecision ''BTC'' 33 50000 (indexAt 50 1),
            buyDecision ''ETH'' 8.25 2500 (indexAt 50 1)]
   \<and> calculateBuyDecisions defaultConfig (cashOnly 1000) bothPrices (indexAt 50 1)
     = Inr [buyDecision ''BTC'' 80 50000 (indexAt 50 1),
            buyDecision ''ETH'' 20 2500 (indexAt 50 1)]
   \<and> calculateBuyDecisions defaultConfig (cashOnly 0) bothPrices (indexAt 50 1) = Inr []"
proof -
  have 1: "GetFearGreedIndex (Inr (50, [])) = Inr (indexAt 50 1)"
    by (rule example_index)
  have 2: "calculateMultiplier 50 = Inr 1"
    using calculateMultiplier_exact [of 50] by (simp add: multiplier_spec_def)
  have 3: "calculateDynamicBuffer 50 = Inr 0.175"
    by (simp add: calculateDynamicBuffer_exact bufferFraction_spec_def)
  have a: "(41.25::rat) = min (WeeklyBaseInvestment defaultConfig * 1)
                              (USDCBalance (cashOnly 50) * (1 - 0.175))"
    and b: "(100::rat) = min (WeeklyBaseInvestment defaultConfig * 1)
                              (USDCBalance (cashOnly 1000) * (1 - 0.175))"
    and c: "(0::rat) = min (WeeklyBaseInvestment defaultConfig * 1)
                              (USDCBalance (cashOnly 0) * (1 - 0.175))"
    by (simp_all add: defaultConfig_def cashOnly_def)
  have p1: "calculateBuyDecisions defaultConfig (cashOnly 50) bothPrices (indexAt 50 1)
     = Inr [buyDecision ''BTC'' 33 50000 (indexAt 50 1),
            buyDecision ''ETH'' 8.25 2500 (indexAt 50 1)]"
    by code_simp
  have p2: "calculateBuyDecisions defaultConfig (cashOnly 1000) bothPrices (indexAt 50 1)
     = Inr [buyDecision ''BTC'' 80 50000 (indexAt 50 1),
            buyDecision ''ETH'' 20 2500 (indexAt 50 1)]"
    by (rule example_plan)
  have p3: "calculateBuyDecisions defaultConfig (cashOnly 0) bothPrices (indexAt 50 1) = Inr []"
    using planner_investable [OF 1 2 3 c, of bothPrices] by (simp add: cashOnly_def)
  show ?thesis
    using planner_investable [OF 1 2 3 a, of bothPrices]
      planner_investable [OF 1 2 3 b, of bothPrices] p1 p2 p3
    by blast
qed

subsection \<open>The split between the assets\<close>

lemma DivRound_100_exact:
  assumes "x * 10 ^ 14 = of_int k"
  shows "DivRound x 100 DivisionPrecision = x / 100"
proof -
  have "x / 100 * 10 ^ 16 = x * 10 ^ 14" by simp
  with assms have "x / 100 * 10 ^ 16 = of_int k" by simp
  from DivRound_exact [OF this] have "DivRound x 100 16 = of_int k / 10 ^ 16" .
  also have "\<dots> = x * 10 ^ 14 / 10 ^ 16" using assms by simp
  also have "\<dots> = x / 100" by simp
  finally show ?thesis by (simp add: DivisionPrecision_def)
qed

lemma DivRound_100_error:
  "\<bar>DivRound x 100 DivisionPrecision - x / 100\<bar> \<le> 1 / (2 * 10 ^ 16)"
  using DivRound_error [of 100 x 16] by (simp add: DivisionPrecision_def)

lemma DivRound_nonpos:
  assumes "d \<le> 0" and "0 < d2"
  shows "DivRound d d2 p \<le> 0"
proof (cases "d = 0")
  case True
  then show ?thesis by (simp add: DivRound_def)
next
  case False
  define x where "x = d / d2 * 10 ^ p"
  from False assms have s: "sgn d * sgn d2 < 0" by (simp add: sgn_if)
  with assms(2) have x: "x < 0"
    using sgn_mult_neg_iff [of d2 d p] by (simp add: x_def)
  then have "\<lceil>x\<rceil> \<le> 0" by (simp add: ceiling_le_iff)
  then have q: "(of_int \<lceil>x\<rceil> :: rat) \<le> 0" by simp
  have D: "DivRound d d2 p =
             (if 2 * \<bar>x - of_int \<lceil>x\<rceil>\<bar> < 1 then of_int \<lceil>x\<rceil> / 10 ^ p
              else (of_int \<lceil>x\<rceil> - 1) / 10 ^ p)"
    unfolding DivRound_def Let_def x_def [symmetric] using s x by simp
  have "(of_int \<lceil>x\<rceil> :: rat) / 10 ^ p \<le> 0" "(of_int \<lceil>x\<rceil> - 1 :: rat) / 10 ^ p \<le> 0"
    using q by (simp_all add: divide_le_0_iff)
  then show ?thesis unfolding D by (cases "2 * \<bar>x - of_int \<lceil>x\<rceil>\<bar> < 1") (simp_all only: if_True if_False)
qed

lemma DivRound_100_pos_imp:
  assumes "0 < DivRound x 100 DivisionPrecision"
  shows "0 < x / 100"
proof (rule ccontr)
  assume "\<not> 0 < x / 100"
  then have "x \<le> 0" by simp
  then have "DivRound x 100 DivisionPrecision \<le> 0" by (rule DivRound_nonpos) simp
  with assms show False by simp
qed

lemma DivRound_100_pos:
  assumes "1 / 10 ^ 16 \<le> x / 100"
  shows "0 < DivRound x 100 DivisionPrecision"
proof -
  have e: "\<bar>DivRound x 100 DivisionPrecision - x / 100\<bar> \<le> 1 / 20000000000000000"
    using DivRound_100_error [of x] by simp
  have a: "1 / 10000000000000000 \<le> x / 100"
    using assms by simp
  from e a show ?thesis by linarith
qed

lemma split_sum_error:
  fixes investable :: rat
  assumes "wb + we = 100"
  shows "\<bar>DivRound (investable * wb) 100 DivisionPrecision
          + DivRound (investable * we) 100 DivisionPrecision - investable\<bar> \<le> 1 / 10 ^ 16"
proof -
  have "investable = investable * wb / 100 + investable * we / 100"
    using assms by (simp add: distrib_left [symmetric] add_divide_distrib [symmetric])
  then show ?thesis
    using DivRound_100_error [of "investable * wb"] DivRound_100_error [of "investable * we"]
    by linarith
qed

text \<open>
  Rounding is at the 17th decimal place: with the default 80/20 weights, an index of 10 and
  a cash balance of 1.00000000000000001 the amount to invest is the whole balance, and the
  two decisions carry 0.8 and 0.2.
\<close>

lemma planner_rounding_example:
  "calculateBuyDecisions defaultConfig (cashOnly (1 + 1 / 10 ^ 17)) bothPrices (indexAt 10 1.8)
     = Inr [buyDecision ''BTC'' 0.8 50000 (indexAt 10 1.8),
            buyDecision ''ETH'' 0.2 2500 (indexAt 10 1.8)]
   \<and> investmentAmount defaultConfig (cashOnly (1 + 1 / 10 ^ 17)) (indexAt 10 1.8) 0
       = 1 + 1 / 10 ^ 17"
  by code_simp

text \<open>
  C7. With a positive investable amount the planner returns, without failing, the BTC
  decision followed by the ETH decision, each present exactly when the price lookup of its
  asset succeeded and its amount is positive; a failed lookup drops that asset's decision
  only. The amount of an asset is the decimal quotient of investable times its weight by 100,
  whatever happened to the other asset: it is within half a unit of the 16th decimal place of
  the exact share, positive only if the share is, and positive whenever the share is at least
  one such unit. With weights that sum to 100 and no asset skipped, the cash amounts of the
  two decisions sum to the investable amount up to rounding, that is within
  \<open>10\<^sup>-\<^sup>1\<^sup>6\<close>, and exactly when both shares have at most 16 decimal places.
\<close>

theorem planner_per_asset:
  assumes "calculateDynamicBuffer (Value fngIndex) = Inr b"
      and "investable = investmentAmount config portfolio fngIndex b"
      and "0 < investable"
      and "btcAmount = DivRound (investable * BTCAllocation config) 100 DivisionPrecision"
      and "ethAmount = DivRound (investable * ETHAllocation config) 100 DivisionPrecision"
  shows "calculateBuyDecisions config portfolio assetPrice fngIndex =
           Inr ((case assetPrice ''BTC'' of
                   Inr price \<Rightarrow>
                     if 0 < btcAmount then [buyDecision ''BTC'' btcAmount price fngIndex] else []
                 | Inl err \<Rightarrow> [])
              @ (case assetPrice ''ETH'' of
                   Inr price \<Rightarrow>
                     if 0 < ethAmount then [buyDecision ''ETH'' ethAmount price fngIndex] else []
                 | Inl err \<Rightarrow> []))
         \<and> \<bar>btcAmount - investable * BTCAllocation config / 100\<bar> \<le> 1 / (2 * 10 ^ 16)
         \<and> \<bar>ethAmount - investable * ETHAllocation config / 100\<bar> \<le> 1 / (2 * 10 ^ 16)
         \<and> (0 < btcAmount \<longrightarrow> 0 < investable * BTCAllocation config / 100)
         \<and> (0 < ethAmount \<longrightarrow> 0 < investable * ETHAllocation config / 100)
         \<and> (1 / 10 ^ 16 \<le> investable * BTCAllocation config / 100 \<longrightarrow> 0 < btcAmount)
         \<and> (1 / 10 ^ 16 \<le> investable * ETHAllocation config / 100 \<longrightarrow> 0 < ethAmount)
         \<and> (BTCAllocation config + ETHAllocation config = 100 \<longrightarrow>
               \<bar>btcAmount + ethAmount - investable\<bar> \<le> 1 / 10 ^ 16)
         \<and> (BTCAllocation config + ETHAllocation config = 100
              \<and> \<not> isl (assetPrice ''BTC'') \<and> \<not> isl (assetPrice ''ETH'')
              \<and> 0 < btcAmount \<and> 0 < ethAmount \<longrightarrow>
               (\<exists>decisions.
                  calculateBuyDecisions config portfolio assetPrice fngIndex = Inr decisions
                  \<and> map Asset decisions = [''BTC'', ''ETH'']
                  \<and> map Amount decisions = [btcAmount, ethAmount]
                  \<and> \<bar>sum_list (map Amount decisions) - investable\<bar> \<le> 1 / 10 ^ 16))
         \<and> (BTCAllocation config + ETHAllocation config = 100
              \<and> (\<exists>k. investable * BTCAllocation config * 10 ^ 14 = of_int k)
              \<and> (\<exists>k. investable * ETHAllocation config * 10 ^ 14 = of_int k) \<longrightarrow>
               btcAmount = investable * BTCAllocation config / 100
               \<and> ethAmount = investable * ETHAllocation config / 100
               \<and> btcAmount + ethAmount = investable)"
proof -
  from assms(1) have b: "b = bufferFraction_spec (Value fngIndex)"
    by (simp add: calculateDynamicBuffer_exact)
  have plan: "calculateBuyDecisions config portfolio assetPrice fngIndex =
           Inr ((case assetPrice ''BTC'' of
                   Inr price \<Rightarrow>
                     if 0 < btcAmount then [buyDecision ''BTC'' btcAmount price fngIndex] else []
                 | Inl err \<Rightarrow> [])
              @ (case assetPrice ''ETH'' of
                   Inr price \<Rightarrow>
                     if 0 < ethAmount then [buyDecision ''ETH'' ethAmount price fngIndex] else []
                 | Inl err \<Rightarrow> []))"
    using assms(3) unfolding calculateBuyDecisions_plan assms(2,4,5) b
    by (simp add: Let_def)
  have errs: "\<bar>btcAmount - investable * BTCAllocation config / 100\<bar> \<le> 1 / (2 * 10 ^ 16)"
    "\<bar>ethAmount - investable * ETHAllocation config / 100\<bar> \<le> 1 / (2 * 10 ^ 16)"
    unfolding assms(4,5) by (rule DivRound_100_error)+
  have signs: "0 < btcAmount \<Longrightarrow> 0 < investable * BTCAllocation config / 100"
    "0 < ethAmount \<Longrightarrow> 0 < investable * ETHAllocation config / 100"
    "1 / 10 ^ 16 \<le> investable * BTCAllocation config / 100 \<Longrightarrow> 0 < btcAmount"
    "1 / 10 ^ 16 \<le> investable * ETHAllocation config / 100 \<Longrightarrow> 0 < ethAmount"
    unfolding assms(4,5) by (erule DivRound_100_pos_imp DivRound_100_pos)+
  have sum: "\<bar>btcAmount + ethAmount - investable\<bar> \<le> 1 / 10 ^ 16"
    if "BTCAllocation config + ETHAllocation config = 100"
    unfolding assms(4,5) using that by (rule split_sum_error)
  have both: "\<exists>decisions.
                  calculateBuyDecisions config portfolio assetPrice fngIndex = Inr decisions
                  \<and> map Asset decisions = [''BTC'', ''ETH'']
                  \<and> map Amount decisions = [btcAmount, ethAmount]
                  \<and> \<bar>sum_list (map Amount decisions) - investable\<bar> \<le> 1 / 10 ^ 16"
    if w: "BTCAllocation config + ETHAllocation config = 100"
      and "\<not> isl (assetPrice ''BTC'')" "\<not> isl (assetPrice ''ETH'')"
      and "0 < btcAmount" "0 < ethAmount"
  proof -
    from that obtain p1 p2 where "assetPrice ''BTC'' = Inr p1" "assetPrice ''ETH'' = Inr p2"
      by (cases "assetPrice ''BTC''"; cases "assetPrice ''ETH''") auto
    with that have "calculateBuyDecisions config portfolio assetPrice fngIndex =
        Inr [buyDecision ''BTC'' btcAmount p1 fngIndex, buyDecision ''ETH'' ethAmount p2 fngIndex]"
      by (simp add: plan)
    moreover have "btcAmount + (ethAmount + 0) - investable = btcAmount + ethAmount - investable"
      by simp
    ultimately show ?thesis
      using sum [OF w] by (simp add: buyDecision_def)
  qed
  have exact: "btcAmount = investable * BTCAllocation config / 100
               \<and> ethAmount = investable * ETHAllocation config / 100
               \<and> btcAmount + ethAmount = investable"
    if w: "BTCAllocation config + ETHAllocation config = 100"
      and kb: "\<exists>k. investable * BTCAllocation config * 10 ^ 14 = of_int k"
      and ke: "\<exists>k. investable * ETHAllocation config * 10 ^ 14 = of_int k"
  proof -
    from kb obtain k1 where "investable * BTCAllocation config * 10 ^ 14 = of_int k1" ..
    then have 1: "btcAmount = investable * BTCAllocation config / 100"
      unfolding assms(4) by (rule DivRound_100_exact)
    from ke obtain k2 where "investable * ETHAllocation config * 10 ^ 14 = of_int k2" ..
    then have 2: "ethAmount = investable * ETHAllocation config / 100"
      unfolding assms(5) by (rule DivRound_100_exact)
    have "investable * BTCAllocation config / 100 + investable * ETHAllocation config / 100
          = investable"
      using w by (simp add: distrib_left [symmetric] add_divide_distrib [symmetric])
    with 1 2 show ?thesis by simp
  qed
  from plan errs signs sum both exact show ?thesis by blast
qed

theorem planner_per_asset_witness:
  "calculateBuyDecisions defaultConfig (cashOnly 1000) bothPrices (indexAt 50 1)
     = Inr [buyDecision ''BTC'' 80 50000 (indexAt 50 1),
            buyDecision ''ETH'' 20 2500 (indexAt 50 1)]
   \<and> calculateBuyDecisions defaultConfig (cashOnly 1000) noPrices (indexAt 50 1) = Inr []"
proof -
  have b: "calculateDynamicBuffer (Value (indexAt 50 1)) = Inr 0.175"
    by (simp add: calculateDynamicBuffer_exact bufferFraction_spec_def indexAt_def)
  have i: "(100::rat) = investmentAmount defaultConfig (cashOnly 1000) (indexAt 50 1) 0.175"
    by (simp add: investmentAmount_min defaultConfig_def cashOnly_def indexAt_def)
  have btc: "(80::rat) = DivRound (100 * BTCAllocation defaultConfig) 100 DivisionPrecision"
    by (simp add: defaultConfig_def DivRound_def DivisionPrecision_def Let_def)
  have eth: "(20::rat) = DivRound (100 * ETHAllocation defaultConfig) 100 DivisionPrecision"
    by (simp add: defaultConfig_def DivRound_def DivisionPrecision_def Let_def)
  show ?thesis
    using planner_per_asset [OF b i _ btc eth, of bothPrices]
      planner_per_asset [OF b i _ btc eth, of noPrices]
    by (simp add: bothPrices_def noPrices_def)
qed

section \<open>The orchestrator\<close>

lemma executeBuyOrder_insufficient:
  assumes "USDCBalance portfolio < Amount decision"
  shows "executeBuyOrder venue portfolio decision calls =
           (Inl (InsufficientUSDCBalance (USDCBalance portfolio) (Amount decision)), calls)"
  using assms by (simp add: executeBuyOrder_def)

lemma executeBuyOrder_places:
  assumes "\<not> USDCBalance portfolio < Amount decision" and "Price decision \<noteq> 0"
  shows "executeBuyOrder venue portfolio decision calls =
           (let call = PlaceOrderCall (Asset decision @ ''-USDC'') ''BUY'' ''market''
                         (DivRound (Amount decision) (Price decision) DivisionPrecision) []
            in (case venue calls call of
                  Inl msg \<Rightarrow> Inl (Wrap ''failed to place order'' (Err msg))
                | Inr orderResp \<Rightarrow>
                    if resp_Success orderResp then Inr ()
                    else Inl (OrderFailed (resp_FailureReason orderResp)),
                calls @ [call]))"
  using assms by (simp add: executeBuyOrder_def Div_def Let_def split: sum.splits)

text \<open>
  A decision with a zero price and enough cash makes the division panic, and the panic ends
  the loop. With nonzero prices no order panics.
\<close>

lemma executeDecisions_zero_price:
  assumes "Action decision = ''buy''" and "\<not> USDCBalance portfolio < Amount decision"
      and "Price decision = 0"
  shows "executeDecisions venue portfolio (decision # rest) st
           = Inl (Panic ''decimal division by 0'')"
  using assms by (simp add: executeBuyOrder_def Div_def)

lemma executeBuyOrder_no_panic:
  assumes "Price decision \<noteq> 0"
  shows "fst (executeBuyOrder venue portfolio decision calls) \<noteq> Inl (Panic msg)"
proof (cases "USDCBalance portfolio < Amount decision")
  case True
  then show ?thesis by (simp add: executeBuyOrder_insufficient)
next
  case False
  then show ?thesis
    using assms by (simp add: executeBuyOrder_places Let_def split: sum.splits)
qed

lemma executeDecisions_step:
  assumes "Action decision = ''buy''" and "Price decision \<noteq> 0"
  shows "executeDecisions venue portfolio (decision # rest) st =
           (case fst (executeBuyOrder venue portfolio decision (placed st)) of
              Inl err \<Rightarrow>
                executeDecisions venue portfolio rest
                  (st\<lparr>resultSuccess := False, resultError := Some err,
                      failedOrders := failedOrders st + 1,
                      placed := snd (executeBuyOrder venue portfolio decision (placed st))\<rparr>)
            | Inr u \<Rightarrow>
                executeDecisions venue portfolio rest
                  (st\<lparr>totalInvested := totalInvested st + Amount decision,
                      successfulOrders := successfulOrders st + 1,
                      placed := snd (executeBuyOrder venue portfolio decision (placed st))\<rparr>))"
  using assms(1) executeBuyOrder_no_panic [OF assms(2), of venue portfolio "placed st"]
  by (cases "executeBuyOrder venue portfolio decision (placed st)")
     (auto split: sum.splits error.splits)

lemma succeeded_simps:
  "succeeded (d, Inl e) = False" "succeeded (d, Inr u) = True"
  by (simp_all add: succeeded_def)

text \<open>
  The loop against the sequence of outcomes: the success flag stays set exactly when every
  outcome succeeded, the total grows by the amounts of the succeeded outcomes, and the two
  counters together count every outcome.
\<close>

lemma executeDecisions_aggregate:
  assumes "\<forall>d \<in> set ds. Price d \<noteq> 0"
  shows "\<exists>st'. executeDecisions venue portfolio ds st = Inr st'
     \<and> resultSuccess st' =
         (resultSuccess st \<and> list_all succeeded (outcomes venue portfolio ds (placed st)))
     \<and> totalInvested st' = totalInvested st
         + sum_list (map (Amount \<circ> fst) (filter succeeded (outcomes venue portfolio ds (placed st))))
     \<and> successfulOrders st' + failedOrders st' = successfulOrders st + failedOrders st
         + length (outcomes venue portfolio ds (placed st))"
  using assms
proof (induction ds arbitrary: st)
  case Nil
  then show ?case by simp
next
  case (Cons d ds)
  show ?case
  proof (cases "Action d = ''buy''")
    case False
    with Cons show ?thesis by simp
  next
    case True
    from Cons.prems have p: "Price d \<noteq> 0" and rest: "\<forall>d \<in> set ds. Price d \<noteq> 0" by simp_all
    show ?thesis
    proof (cases "fst (executeBuyOrder venue portfolio d (placed st))")
      case (Inl err)
      with Cons.IH [OF rest, of "st\<lparr>resultSuccess := False, resultError := Some err,
                      failedOrders := failedOrders st + 1,
                      placed := snd (executeBuyOrder venue portfolio d (placed st))\<rparr>"]
      show ?thesis
        by (auto simp: executeDecisions_step [OF True p] True succeeded_simps
            simp del: executeDecisions.simps)
    next
      case (Inr u)
      with Cons.IH [OF rest, of "st\<lparr>totalInvested := totalInvested st + Amount d,
                      successfulOrders := successfulOrders st + 1,
                      placed := snd (executeBuyOrder venue portfolio d (placed st))\<rparr>"]
      show ?thesis
        by (auto simp: executeDecisions_step [OF True p] True succeeded_simps
            simp del: executeDecisions.simps)
    qed
  qed
qed

lemma outcomes_all_buy:
  assumes "\<forall>d \<in> set ds. Action d = ''buy''"
  shows "map fst (outcomes venue portfolio ds calls) = ds"
  using assms by (induction ds arbitrary: calls) simp_all

text \<open>
  The orders of a finished loop: one market buy for every decision that the snapshot's cash
  balance covers, in order, whatever the outcomes of the decisions before it.
\<close>

lemma executeBuyOrder_placed:
  assumes "Price decision \<noteq> 0"
  shows "snd (executeBuyOrder venue portfolio decision calls) =
           calls @ map marketBuy (filter (\<lambda>d. \<not> USDCBalance portfolio < Amount d) [decision])"
  using assms
  by (simp add: executeBuyOrder_insufficient executeBuyOrder_places Let_def marketBuy_def)

lemma executeDecisions_placed:
  assumes "\<forall>d \<in> set ds. Price d \<noteq> 0 \<and> Action d = ''buy''"
      and "executeDecisions venue portfolio ds st = Inr st'"
  shows "placed st' =
           placed st @ map marketBuy (filter (\<lambda>d. \<not> USDCBalance portfolio < Amount d) ds)"
  using assms
proof (induction ds arbitrary: st)
  case Nil
  then show ?case by simp
next
  case (Cons d ds)
  from Cons.prems(1) have p: "Price d \<noteq> 0" and a: "Action d = ''buy''"
    and rest: "\<forall>d \<in> set ds. Price d \<noteq> 0 \<and> Action d = ''buy''" by simp_all
  show ?case
  proof (cases "fst (executeBuyOrder venue portfolio d (placed st))")
    case (Inl err)
    with Cons.prems(2)
    have "executeDecisions venue portfolio ds
            (st\<lparr>resultSuccess := False, resultError := Some err,
                failedOrders := failedOrders st + 1,
                placed := snd (executeBuyOrder venue portfolio d (placed st))\<rparr>) = Inr st'"
      by (simp add: executeDecisions_step [OF a p] del: executeDecisions.simps)
    from Cons.IH [OF rest this] show ?thesis
      by (simp add: executeBuyOrder_placed [OF p])
  next
    case (Inr u)
    with Cons.prems(2)
    have "executeDecisions venue portfolio ds
            (st\<lparr>totalInvested := totalInvested st + Amount d,
                successfulOrders := successfulOrders st + 1,
                placed := snd (executeBuyOrder venue portfolio d (placed st))\<rparr>) = Inr st'"
      by (simp add: executeDecisions_step [OF a p] del: executeDecisions.simps)
    from Cons.IH [OF rest this] show ?thesis
      by (simp add: executeBuyOrder_placed [OF p])
  qed
qed

text \<open>
  C8. A run that reaches the loop with decisions of nonzero price returns a result. Every
  planned decision has an outcome, in order, also after a failed one, and an order is placed
  for every decision that the cash balance covers; the success flag of the result is false
  exactly when some outcome failed; the total invested is the sum of the amounts of the
  succeeded outcomes. With two decisions of which the second is rejected by the venue, both
  orders are placed, the flag is false and the total is the first amount.
\<close>

theorem Execute_aggregates_outcomes:
  assumes "GetPortfolio services = Inr portfolio"
      and "GetFearGreedIndex (FetchFNG services) = Inr fngIndex"
      and "calculateBuyDecisions config portfolio (getAssetPrice services) fngIndex = Inr decisions"
      and "\<forall>d \<in> set decisions. Price d \<noteq> 0"
      and "os = outcomes (PlaceOrder services) portfolio decisions []"
  shows "\<exists>result calls. Execute config services = Inr (result, calls)
           \<and> Decisions result = decisions
           \<and> map fst os = decisions
           \<and> calls = map marketBuy (filter (\<lambda>d. \<not> USDCBalance portfolio < Amount d) decisions)
           \<and> (\<not> Success result \<longleftrightarrow> (\<exists>outcome \<in> set os. \<not> succeeded outcome))
           \<and> TotalInvested result = sum_list (map (Amount \<circ> fst) (filter succeeded os))"
proof -
  from executeDecisions_aggregate [OF assms(4), of "PlaceOrder services" portfolio initialLoopState]
  obtain st' where st': "executeDecisions (PlaceOrder services) portfolio decisions initialLoopState
                     = Inr st'"
    and s: "resultSuccess st' = list_all succeeded os"
    and t: "totalInvested st' = sum_list (map (Amount \<circ> fst) (filter succeeded os))"
    by (auto simp: initialLoopState_def assms(5))
  have buy: "\<forall>d \<in> set decisions. Action d = ''buy''"
    using assms(3) by (rule calculateBuyDecisions_Action)
  have m: "map fst os = decisions"
    unfolding assms(5) using buy by (rule outcomes_all_buy)
  have c: "placed st' =
             map marketBuy (filter (\<lambda>d. \<not> USDCBalance portfolio < Amount d) decisions)"
    using executeDecisions_placed [OF _ st'] assms(4) buy by (simp add: initialLoopState_def)
  have "Execute config services =
          Inr (\<lparr>Success = resultSuccess st', Decisions = decisions,
                PortfolioBefore = portfolio, FNGIndex = fngIndex,
                TotalInvested = totalInvested st', TotalSold = 0,
                Error = resultError st'\<rparr>, placed st')"
    by (simp add: Execute_def assms(1,2,3) st' andThen_def)
  with s t m c show ?thesis
    by (auto simp: list_all_iff)
qed

theorem Execute_aggregates_outcomes_witness:
  "Execute defaultConfig (exampleServices 1000 50 bothPrices venueRejectsETH) =
     Inr (\<lparr>Success = False,
           Decisions = [buyDecision ''BTC'' 80 50000 (indexAt 50 1),
                        buyDecision ''ETH'' 20 2500 (indexAt 50 1)],
           PortfolioBefore = cashOnly 1000, FNGIndex = indexAt 50 1,
           TotalInvested = 80, TotalSold = 0,
           Error = Some (OrderFailed ''INSUFFICIENT_FUND'')\<rparr>,
          [PlaceOrderCall ''BTC-USDC'' ''BUY'' ''market'' 0.0016 [],
           PlaceOrderCall ''ETH-USDC'' ''BUY'' ''market'' 0.008 []])
   \<and> map succeeded (outcomes venueRejectsETH (cashOnly 1000)
         [buyDecision ''BTC'' 80 50000 (indexAt 50 1),
          buyDecision ''ETH'' 20 2500 (indexAt 50 1)] []) = [True, False]"
proof -
  have 1: "GetPortfolio (exampleServices 1000 50 bothPrices venueRejectsETH)
             = Inr (cashOnly 1000)"
    by (simp add: exampleServices_def)
  have 2: "GetFearGreedIndex (FetchFNG (exampleServices 1000 50 bothPrices venueRejectsETH))
             = Inr (indexAt 50 1)"
    by (simp add: exampleServices_def example_index)
  have 3: "calculateBuyDecisions defaultConfig (cashOnly 1000)
             (getAssetPrice (exampleServices 1000 50 bothPrices venueRejectsETH)) (indexAt 50 1)
           = Inr [buyDecision ''BTC'' 80 50000 (indexAt 50 1),
                  buyDecision ''ETH'' 20 2500 (indexAt 50 1)]"
    by (simp add: exampleServices_def example_plan)
  have 4: "\<forall>d \<in> set [buyDecision ''BTC'' 80 50000 (indexAt 50 1),
                  buyDecision ''ETH'' 20 2500 (indexAt 50 1)]. Price d \<noteq> 0"
    by (simp add: buyDecision_def)
  have E: "Execute defaultConfig (exampleServices 1000 50 bothPrices venueRejectsETH) =
     Inr (\<lparr>Success = False,
           Decisions = [buyDecision ''BTC'' 80 50000 (indexAt 50 1),
                        buyDecision ''ETH'' 20 2500 (indexAt 50 1)],
           PortfolioBefore = cashOnly 1000, FNGIndex = indexAt 50 1,
           TotalInvested = 80, TotalSold = 0,
           Error = Some (OrderFailed ''INSUFFICIENT_FUND'')\<rparr>,
          [PlaceOrderCall ''BTC-USDC'' ''BUY'' ''market'' 0.0016 [],
           PlaceOrderCall ''ETH-USDC'' ''BUY'' ''market'' 0.008 []])"
    by code_simp
  have O: "map succeeded (outcomes venueRejectsETH (cashOnly 1000)
         [buyDecision ''BTC'' 80 50000 (indexAt 50 1),
          buyDecision ''ETH'' 20 2500 (indexAt 50 1)] []) = [True, False]"
    by code_simp
  from Execute_aggregates_outcomes [OF 1 2 3 4 refl] E O show ?thesis
    by simp
qed

text \<open>
  The liquidity check and the size. A decision whose amount exceeds the cash balance of the
  snapshot fails with the insufficient-balance error and places no order, and the loop goes
  on with the remaining decisions. Otherwise, the price being nonzero, \<^verbatim>\<open>PlaceOrder\<close> is
  called once, for a market buy of the product of the asset, with size the decimal quotient
  of amount by price: the quotient to 16 decimal places, which is the exact quotient when
  that has at most 16 decimal places.
\<close>

lemma executeBuyOrder_liquidity_and_size:
  "(USDCBalance portfolio < Amount decision \<longrightarrow>
      executeBuyOrder venue portfolio decision calls =
        (Inl (InsufficientUSDCBalance (USDCBalance portfolio) (Amount decision)), calls)
      \<and> (Action decision = ''buy'' \<longrightarrow>
           executeDecisions venue portfolio (decision # rest) st =
             executeDecisions venue portfolio rest
               (st\<lparr>resultSuccess := False,
                   resultError :=
                     Some (InsufficientUSDCBalance (USDCBalance portfolio) (Amount decision)),
                   failedOrders := failedOrders st + 1\<rparr>)))
   \<and> (\<not> USDCBalance portfolio < Amount decision \<and> Price decision \<noteq> 0 \<longrightarrow>
        snd (executeBuyOrder venue portfolio decision calls) =
          calls @ [PlaceOrderCall (Asset decision @ ''-USDC'') ''BUY'' ''market''
                     (DivRound (Amount decision) (Price decision) DivisionPrecision) []]
        \<and> \<bar>DivRound (Amount decision) (Price decision) DivisionPrecision
             - Amount decision / Price decision\<bar> \<le> 1 / (2 * 10 ^ 16)
        \<and> ((\<exists>k. Amount decision / Price decision * 10 ^ 16 = of_int k) \<longrightarrow>
             DivRound (Amount decision) (Price decision) DivisionPrecision
               = Amount decision / Price decision))"
proof -
  have exact: "DivRound (Amount decision) (Price decision) DivisionPrecision
               = Amount decision / Price decision"
    if "\<exists>k. Amount decision / Price decision * 10 ^ 16 = of_int k"
  proof -
    from that obtain k where k: "Amount decision / Price decision * 10 ^ 16 = of_int k" ..
    from DivRound_exact [OF k]
    have "DivRound (Amount decision) (Price decision) 16
            = Amount decision / Price decision * 10 ^ 16 / 10 ^ 16"
      by (simp only: k)
    then show ?thesis by (simp add: DivisionPrecision_def)
  qed
  have err: "\<bar>DivRound (Amount decision) (Price decision) DivisionPrecision
             - Amount decision / Price decision\<bar> \<le> 1 / (2 * 10 ^ 16)"
    if "Price decision \<noteq> 0"
    using DivRound_error [OF that, of "Amount decision" 16] by (simp add: DivisionPrecision_def)
  show ?thesis
    using exact err
    by (simp add: executeBuyOrder_insufficient executeBuyOrder_places Let_def)
qed

lemma executeBuyOrder_liquidity_and_size_example:
  "executeBuyOrder venueAccepts (cashOnly 100) (buyDecision ''BTC'' 200 50000 (indexAt 50 1)) []
     = (Inl (InsufficientUSDCBalance 100 200), [])
   \<and> executeDecisions venueAccepts (cashOnly 100)
        [buyDecision ''BTC'' 200 50000 (indexAt 50 1),
         buyDecision ''ETH'' 20 2500 (indexAt 50 1)] initialLoopState
     = Inr \<lparr>resultSuccess = False, resultError = Some (InsufficientUSDCBalance 100 200),
            totalInvested = 20, successfulOrders = 1, failedOrders = 1,
            placed = [PlaceOrderCall ''ETH-USDC'' ''BUY'' ''market'' 0.008 []]\<rparr>
   \<and> snd (executeBuyOrder venueAccepts (cashOnly 100)
             (buyDecision ''BTC'' 80 50000 (indexAt 50 1)) [])
     = [PlaceOrderCall ''BTC-USDC'' ''BUY'' ''market'' 0.0016 []]
   \<and> executeDecisions venueAccepts (cashOnly 100)
        [buyDecision ''BTC'' 80 50000 (indexAt 50 1),
         buyDecision ''ETH'' 80 2500 (indexAt 50 1)] initialLoopState
     = Inr \<lparr>resultSuccess = True, resultError = None,
            totalInvested = 160, successfulOrders = 2, failedOrders = 0,
            placed = [PlaceOrderCall ''BTC-USDC'' ''BUY'' ''market'' 0.0016 [],
                      PlaceOrderCall ''ETH-USDC'' ''BUY'' ''market'' 0.032 []]\<rparr>"
proof -
  have a: "executeDecisions venueAccepts (cashOnly 100)
        [buyDecision ''BTC'' 200 50000 (indexAt 50 1),
         buyDecision ''ETH'' 20 2500 (indexAt 50 1)] initialLoopState
     = Inr \<lparr>resultSuccess = False, resultError = Some (InsufficientUSDCBalance 100 200),
            totalInvested = 20, successfulOrders = 1, failedOrders = 1,
            placed = [PlaceOrderCall ''ETH-USDC'' ''BUY'' ''market'' 0.008 []]\<rparr>"
    by code_simp
  have b: "executeDecisions venueAccepts (cashOnly 100)
        [buyDecision ''BTC'' 80 50000 (indexAt 50 1),
         buyDecision ''ETH'' 80 2500 (indexAt 50 1)] initialLoopState
     = Inr \<lparr>resultSuccess = True, resultError = None,
            totalInvested = 160, successfulOrders = 2, failedOrders = 0,
            placed = [PlaceOrderCall ''BTC-USDC'' ''BUY'' ''market'' 0.0016 [],
                      PlaceOrderCall ''ETH-USDC'' ''BUY'' ''market'' 0.032 []]\<rparr>"
    by code_simp
  have c: "DivRound 80 50000 DivisionPrecision = 0.0016"
    by code_simp
  show ?thesis
    using a b c
      executeBuyOrder_liquidity_and_size [of "cashOnly 100"
        "buyDecision ''BTC'' 200 50000 (indexAt 50 1)" venueAccepts "[]"]
      executeBuyOrder_liquidity_and_size [of "cashOnly 100"
        "buyDecision ''BTC'' 80 50000 (indexAt 50 1)" venueAccepts "[]"]
    by (simp add: cashOnly_def buyDecision_def)
qed

text \<open>
  What the venue client makes of the call: the request of a market buy carries the size, a
  quantity of the asset, as the quote size of the order.
\<close>

lemma createOrderRequest_marketBuy:
  "createOrderRequest (marketBuy decision) =
     Inr (CreateOrderRequest (Asset decision @ ''-USDC'') ''BUY''
            (MarketMarketIoc
               (MarketIoc (Some (DivRound (Amount decision) (Price decision) DivisionPrecision))
                  None)))"
  by (simp add: marketBuy_def)

lemma submitted_marketBuy:
  "submitted (map marketBuy ds) =
     map (\<lambda>d. CreateOrderRequest (Asset d @ ''-USDC'') ''BUY''
            (MarketMarketIoc
               (MarketIoc (Some (DivRound (Amount d) (Price d) DivisionPrecision)) None))) ds"
  by (induction ds) (simp_all add: createOrderRequest_marketBuy)

text \<open>
  C9. When the cash balance covers a decision, a market buy order is submitted whose size,
  cash amount over reference price, is in asset units. The default run with a cash balance
  of 1000 at index 50 on the venue client: the decisions are 80 for BTC at 50000 and 20 for
  ETH at 2500, both pass the liquidity check, and the sizes 0.0016 and 0.008 reach the orders
  service as \<^verbatim>\<open>QuoteSize\<close>, amounts of the quote currency, with \<^verbatim>\<open>BaseSize\<close> unset.
\<close>

theorem market_buy_sent_as_quote_size:
  "Execute defaultConfig
     (exampleServices 1000 50 bothPrices (CoinbaseService_PlaceOrder ordersServiceAccepts)) =
     Inr (\<lparr>Success = True,
           Decisions = [buyDecision ''BTC'' 80 50000 (indexAt 50 1),
                        buyDecision ''ETH'' 20 2500 (indexAt 50 1)],
           PortfolioBefore = cashOnly 1000, FNGIndex = indexAt 50 1,
           TotalInvested = 100, TotalSold = 0, Error = None\<rparr>,
          [PlaceOrderCall ''BTC-USDC'' ''BUY'' ''market'' 0.0016 '''',
           PlaceOrderCall ''ETH-USDC'' ''BUY'' ''market'' 0.008 ''''])
   \<and> submitted [PlaceOrderCall ''BTC-USDC'' ''BUY'' ''market'' 0.0016 '''',
                 PlaceOrderCall ''ETH-USDC'' ''BUY'' ''market'' 0.008 '''']
       = [CreateOrderRequest ''BTC-USDC'' ''BUY''
            (MarketMarketIoc (MarketIoc (Some 0.0016) None)),
          CreateOrderRequest ''ETH-USDC'' ''BUY''
            (MarketMarketIoc (MarketIoc (Some 0.008) None))]"
  by code_simp

text \<open>
  C10. A run whose plan is empty, as it is when the cash balance is 0 or when the price
  lookups of both assets fail, returns a result and no error: the success flag is set, the
  total invested is 0, the decision list is empty, and no order was placed.
\<close>

theorem Execute_empty_plan:
  assumes "GetPortfolio services = Inr portfolio"
      and "GetFearGreedIndex (FetchFNG services) = Inr fngIndex"
      and "calculateBuyDecisions config portfolio (getAssetPrice services) fngIndex = Inr []
           \<or> USDCBalance portfolio = 0
           \<or> (isl (getAssetPrice services ''BTC'') \<and> isl (getAssetPrice services ''ETH''))"
  shows "Execute config services =
           Inr (\<lparr>Success = True, Decisions = [], PortfolioBefore = portfolio,
                 FNGIndex = fngIndex, TotalInvested = 0, TotalSold = 0, Error = None\<rparr>, [])"
proof -
  from assms(3)
  have "calculateBuyDecisions config portfolio (getAssetPrice services) fngIndex = Inr []"
    by (auto intro: calculateBuyDecisions_no_cash calculateBuyDecisions_no_prices)
  then show ?thesis
    by (simp add: Execute_def assms(1,2) andThen_def initialLoopState_def)
qed

theorem Execute_empty_plan_witness:
  "Execute defaultConfig (exampleServices 0 50 bothPrices venueAccepts) =
     Inr (\<lparr>Success = True, Decisions = [], PortfolioBefore = cashOnly 0,
           FNGIndex = indexAt 50 1, TotalInvested = 0, TotalSold = 0, Error = None\<rparr>, [])
   \<and> Execute defaultConfig (exampleServices 1000 50 noPrices venueAccepts) =
     Inr (\<lparr>Success = True, Decisions = [], PortfolioBefore = cashOnly 1000,
           FNGIndex = indexAt 50 1, TotalInvested = 0, TotalSold = 0, Error = None\<rparr>, [])"
proof -
  have 1: "GetPortfolio (exampleServices 0 50 bothPrices venueAccepts) = Inr (cashOnly 0)"
    and 2: "GetFearGreedIndex (FetchFNG (exampleServices 0 50 bothPrices venueAccepts))
             = Inr (indexAt 50 1)"
    and 3: "USDCBalance (cashOnly 0) = 0"
    by (simp_all add: exampleServices_def example_index cashOnly_def)
  have 4: "GetPortfolio (exampleServices 1000 50 noPrices venueAccepts) = Inr (cashOnly 1000)"
    and 5: "GetFearGreedIndex (FetchFNG (exampleServices 1000 50 noPrices venueAccepts))
             = Inr (indexAt 50 1)"
    and 6: "isl (getAssetPrice (exampleServices 1000 50 noPrices venueAccepts) ''BTC'')
            \<and> isl (getAssetPrice (exampleServices 1000 50 noPrices venueAccepts) ''ETH'')"
    by (simp_all add: exampleServices_def example_index noPrices_def)
  show ?thesis
    using Execute_empty_plan [OF 1 2 disjI2 [OF disjI1 [OF 3]], of defaultConfig]
      Execute_empty_plan [OF 4 5 disjI2 [OF disjI2 [OF 6]], of defaultConfig]
    by simp
qed

end
